theory Spec2Isabelle
  imports Main "HOL-Library.Word"
begin

section \<open>Calendar time\<close>

text \<open>
  A value of Go's \<^verbatim>\<open>time.Time\<close>, read in one fixed location (UTC, the location
  \<^verbatim>\<open>time.Parse\<close> gives a layout without a zone): the civil date that \<^verbatim>\<open>Year()\<close>,
  \<^verbatim>\<open>Month()\<close> and \<^verbatim>\<open>Day()\<close> return, and the nanoseconds elapsed since midnight of
  that day. The wall clock \<^verbatim>\<open>time.Now()\<close> is an explicit argument \<open>now\<close> of every
  function that reads it.
\<close>

record Time =
  Year :: int
  Month :: int
  Day :: int
  Nanos :: nat

text \<open>\<^verbatim>\<open>calculateAge\<close> of internal/service (and its copy in cmd/test/main.go).\<close>

definition calculateAge :: "Time \<Rightarrow> Time \<Rightarrow> int" where
  "calculateAge current dob =
     (let yearsApart = Year current - Year dob in
      if Month current < Month dob \<or> (Month current = Month dob \<and> Day current < Day dob)
      then yearsApart - 1
      else yearsApart)"

text \<open>\<open>dateBefore t u\<close>: the civil date of \<open>t\<close> is before the civil date of \<open>u\<close>.\<close>

definition dateBefore :: "Time \<Rightarrow> Time \<Rightarrow> bool" where
  "dateBefore t u =
     (Year t < Year u \<or> (Year t = Year u \<and>
        (Month t < Month u \<or> (Month t = Month u \<and> Day t < Day u))))"

text \<open>
  The spec's "birth date within the last 12 months, including today": the civil date of
  \<open>dob\<close> is not after that of \<open>now\<close> and is after the same month and day one year earlier.
\<close>

definition withinLast12Months :: "Time \<Rightarrow> Time \<Rightarrow> bool" where
  "withinLast12Months dob now =
     (\<not> dateBefore now dob \<and> dateBefore (now\<lparr>Year := Year now - 1\<rparr>) dob)"

section \<open>The standard library, as far as the program calls it\<close>

text \<open>
  \<^verbatim>\<open>t.Before(u)\<close>: the instant \<open>t\<close> is strictly before the instant \<open>u\<close>. With both
  values read in the same location this is the lexicographic order on date and time of
  day.
\<close>

definition Before :: "Time \<Rightarrow> Time \<Rightarrow> bool" where
  "Before t u = (dateBefore t u \<or>
     (Year t = Year u \<and> Month t = Month u \<and> Day t = Day u \<and> Nanos t < Nanos u))"

definition isDigit :: "char \<Rightarrow> bool" where
  "isDigit c = (48 \<le> (of_char c :: nat) \<and> (of_char c :: nat) \<le> 57)"

definition digitVal :: "char \<Rightarrow> int" where
  "digitVal c = int (of_char c) - 48"

definition isLeap :: "int \<Rightarrow> bool" where
  "isLeap year = (year mod 4 = 0 \<and> (year mod 100 \<noteq> 0 \<or> year mod 400 = 0))"

definition daysIn :: "int \<Rightarrow> int \<Rightarrow> int" where
  "daysIn m year =
     (if m = 2 then (if isLeap year then 29 else 28)
      else if m = 4 \<or> m = 6 \<or> m = 9 \<or> m = 11 then 30
      else 31)"

text \<open>
  \<^verbatim>\<open>time.Parse("2006-01-02", value)\<close>: four digits, a hyphen, two digits, a hyphen, two
  digits and nothing more; the month is in 1..12 and the day exists in that month of
  that year. The result is midnight UTC of that date; \<open>None\<close> is the parse error.
\<close>

fun Parse :: "string \<Rightarrow> Time option" where
  "Parse [y1, y2, y3, y4, h1, m1, m2, h2, d1, d2] =
     (if isDigit y1 \<and> isDigit y2 \<and> isDigit y3 \<and> isDigit y4 \<and> h1 = CHR ''-''
         \<and> isDigit m1 \<and> isDigit m2 \<and> h2 = CHR ''-'' \<and> isDigit d1 \<and> isDigit d2
      then
        (let year = digitVal y1 * 1000 + digitVal y2 * 100 + digitVal y3 * 10 + digitVal y4;
             month = digitVal m1 * 10 + digitVal m2;
             day = digitVal d1 * 10 + digitVal d2
         in if month \<le> 0 \<or> 12 < month then None
            else if day < 1 \<or> daysIn month year < day then None
            else Some \<lparr>Year = year, Month = month, Day = day, Nanos = 0\<rparr>)
      else None)"
| "Parse _ = None"

text \<open>
  \<^verbatim>\<open>utf8.RuneCountInString\<close>, which the validation library uses for the length of a
  string: a well-formed UTF-8 sequence of 2, 3 or 4 bytes counts once, every other byte
  counts once. \<open>runeSize c rest\<close> is the number of bytes the rune starting with byte
  \<open>c\<close> takes when \<open>rest\<close> follows it.
\<close>

definition inRange :: "nat \<Rightarrow> nat \<Rightarrow> char \<Rightarrow> bool" where
  "inRange lo hi c = (lo \<le> of_char c \<and> of_char c \<le> hi)"

definition runeSize :: "char \<Rightarrow> string \<Rightarrow> nat" where
  "runeSize c rest =
     (let b = of_char c :: nat in
      if b < 0x80 then 1
      else if b < 0xC2 \<or> 0xF4 < b then 1
      else
        (let size = (if b < 0xE0 then 2 else if b < 0xF0 then 3 else 4);
             lo = (if b = 0xE0 then 0xA0 else if b = 0xF0 then 0x90 else 0x80);
             hi = (if b = 0xED then 0x9F else if b = 0xF4 then 0x8F else 0xBF)
         in if length rest + 1 < size then 1
            else if \<not> inRange lo hi (rest ! 0) then 1
            else if size = 2 then 2
            else if \<not> inRange 0x80 0xBF (rest ! 1) then 1
            else if size = 3 then 3
            else if \<not> inRange 0x80 0xBF (rest ! 2) then 1
            else 4))"

fun RuneCountInString :: "string \<Rightarrow> nat" where
  "RuneCountInString [] = 0"
| "RuneCountInString (c # cs) = Suc (RuneCountInString (drop (runeSize c cs - 1) cs))"

text \<open>\<^verbatim>\<open>strings.Join(elems, sep)\<close>.\<close>

fun Join :: "string list \<Rightarrow> string \<Rightarrow> string" where
  "Join [] sep = []"
| "Join [x] sep = x"
| "Join (x # y # ys) sep = x @ sep @ Join (y # ys) sep"

section \<open>Request models and the validator\<close>

text \<open>
  \<^verbatim>\<open>models.CreateUserRequest\<close>, with the struct tags
  \<^verbatim>\<open>Name: validate:"required,min=1,max=255"\<close> and
  \<^verbatim>\<open>DOB: validate:"required,dateformat,notfuture"\<close>. \<^verbatim>\<open>models.UpdateUserRequest\<close> has the
  same fields and the same tags.
\<close>

record CreateUserRequest =
  req_Name :: string
  req_DOB :: string

type_synonym UpdateUserRequest = CreateUserRequest

text \<open>The custom rules of internal/validator.\<close>

definition validateDateFormat :: "string \<Rightarrow> bool" where
  "validateDateFormat dateStr = (case Parse dateStr of None \<Rightarrow> False | Some _ \<Rightarrow> True)"

definition validateNotFuture :: "Time \<Rightarrow> string \<Rightarrow> bool" where
  "validateNotFuture now dateStr =
     (case Parse dateStr of None \<Rightarrow> False | Some dob \<Rightarrow> Before dob now)"

text \<open>
  The built-in rules of go-playground/validator on a string field: \<^verbatim>\<open>required\<close> holds
  of a string that is not empty, \<^verbatim>\<open>min=p\<close> and \<^verbatim>\<open>max=p\<close> compare the number of runes
  with \<open>p\<close>.
\<close>

definition hasValue :: "string \<Rightarrow> bool" where
  "hasValue v = (v \<noteq> [])"

definition isGte :: "nat \<Rightarrow> string \<Rightarrow> bool" where
  "isGte p v = (p \<le> RuneCountInString v)"

definition isLte :: "nat \<Rightarrow> string \<Rightarrow> bool" where
  "isLte p v = (RuneCountInString v \<le> p)"

text \<open>
  One rule of a field as the library holds it after reading the struct tag (its
  \<^verbatim>\<open>cTag\<close>): the tag, its parameter as written, and the function that checks the
  field. A \<^verbatim>\<open>FieldError\<close> records the Go name of the field (no tag-name function is
  registered, so \<^verbatim>\<open>Field()\<close> is the struct field's name), the tag that failed and its
  parameter.
\<close>

record cTag =
  ct_tag :: string
  ct_param :: string
  ct_fn :: "Time \<Rightarrow> string \<Rightarrow> bool"

record FieldError =
  fe_Field :: string
  fe_Tag :: string
  fe_Param :: string

definition NameTags :: "cTag list" where
  "NameTags =
     [\<lparr>ct_tag = ''required'', ct_param = [], ct_fn = (\<lambda>now. hasValue)\<rparr>,
      \<lparr>ct_tag = ''min'', ct_param = ''1'', ct_fn = (\<lambda>now. isGte 1)\<rparr>,
      \<lparr>ct_tag = ''max'', ct_param = ''255'', ct_fn = (\<lambda>now. isLte 255)\<rparr>]"

definition DOBTags :: "cTag list" where
  "DOBTags =
     [\<lparr>ct_tag = ''required'', ct_param = [], ct_fn = (\<lambda>now. hasValue)\<rparr>,
      \<lparr>ct_tag = ''dateformat'', ct_param = [], ct_fn = (\<lambda>now. validateDateFormat)\<rparr>,
      \<lparr>ct_tag = ''notfuture'', ct_param = [], ct_fn = validateNotFuture\<rparr>]"

text \<open>
  The library's walk over one field: the rules run in the order of the tag, and the
  first rule that fails yields the field's only error; the rules after it do not run.
\<close>

fun traverseField :: "Time \<Rightarrow> string \<Rightarrow> string \<Rightarrow> cTag list \<Rightarrow> FieldError list" where
  "traverseField now field v [] = []"
| "traverseField now field v (ct # cts) =
     (if ct_fn ct now v then traverseField now field v cts
      else [\<lparr>fe_Field = field, fe_Tag = ct_tag ct, fe_Param = ct_param ct\<rparr>])"

text \<open>\<^verbatim>\<open>validate.Struct\<close>: the fields in declaration order; \<open>[]\<close> is the nil error.\<close>

definition validate_Struct :: "Time \<Rightarrow> CreateUserRequest \<Rightarrow> FieldError list" where
  "validate_Struct now req =
     traverseField now ''Name'' (req_Name req) NameTags
     @ traverseField now ''DOB'' (req_DOB req) DOBTags"

text \<open>
  \<^verbatim>\<open>getErrorMessage\<close>, \<^verbatim>\<open>formatValidationErrors\<close> and \<^verbatim>\<open>ValidateStruct\<close>. The error
  that \<^verbatim>\<open>ValidateStruct\<close> returns is its text, \<open>None\<close> is the nil error. The text
  goes through \<^verbatim>\<open>fmt.Errorf\<close> as a format; it is made of the names of the fields,
  the parameters of the tags and the fixed words of the messages, none of which has a
  formatting verb, so it comes out as it is.
\<close>

definition getErrorMessage :: "FieldError \<Rightarrow> string" where
  "getErrorMessage fe =
     (let field = fe_Field fe; tag = fe_Tag fe in
      if tag = ''required'' then field @ '' is required''
      else if tag = ''min'' then field @ '' must be at least '' @ fe_Param fe @ '' characters''
      else if tag = ''max'' then field @ '' must be at most '' @ fe_Param fe @ '' characters''
      else if tag = ''dateformat'' then field @ '' must be in YYYY-MM-DD format''
      else if tag = ''notfuture'' then field @ '' cannot be in the future''
      else field @ '' is invalid'')"

definition formatValidationErrors :: "FieldError list \<Rightarrow> string" where
  "formatValidationErrors validationErrors = Join (map getErrorMessage validationErrors) ''; ''"

definition ValidateStruct :: "Time \<Rightarrow> CreateUserRequest \<Rightarrow> string option" where
  "ValidateStruct now data =
     (let err = validate_Struct now data in
      if err \<noteq> [] then Some (formatValidationErrors err) else None)"

section \<open>Persistence: the records and the in-memory repository\<close>

text \<open>
  An identifier is a Go \<^verbatim>\<open>int32\<close>: a 32-bit word whose addition wraps around and
  which \<open>sint\<close> reads as a signed number.
\<close>

type_synonym int32 = "32 word"

text \<open>
  Modelled from the spec: the record \<^verbatim>\<open>database.User\<close> of the generated package db/sqlc,
  which is not among the sources. The persisted record of the spec has an integer
  \<open>id\<close>, a text \<open>name\<close> and a date \<open>dob\<close>; the names of the fields and the type of
  the identifier are those the repository and the service use.
\<close>

record User =
  u_ID :: int32
  u_Name :: string
  u_Dob :: Time

text \<open>
  Modelled from the spec: the record \<^verbatim>\<open>database.CreateUserParams\<close> of db/sqlc, which is
  not among the sources. A create statement binds \<open>name\<close> and \<open>dob\<close>.
\<close>

record CreateUserParams =
  cp_Name :: string
  cp_Dob :: Time

text \<open>
  Modelled from the spec: the record \<^verbatim>\<open>database.UpdateUserParams\<close> of db/sqlc, which is
  not among the sources. An update statement binds \<open>id\<close>, \<open>name\<close> and \<open>dob\<close>.
\<close>

record UpdateUserParams =
  up_ID :: int32
  up_Name :: string
  up_Dob :: Time

text \<open>\<^verbatim>\<open>models.UserResponse\<close>.\<close>

record UserResponse =
  r_ID :: int32
  r_Name :: string
  r_DOB :: Time
  r_Age :: int

text \<open>
  \<^verbatim>\<open>MockUserRepository\<close>. The Go map holds a pointer to a record of its own for each
  key (made in \<^verbatim>\<open>CreateUser\<close>, never handed out: every method returns a copy), so the
  map is modelled by value. The lock is left out: one operation runs at a time. An
  error is the text given to \<^verbatim>\<open>errors.New\<close>.
\<close>

record MockUserRepository =
  users :: "int32 \<rightharpoonup> User"
  nextID :: int32
  shouldFail :: bool

definition NewMockUserRepository :: MockUserRepository where
  "NewMockUserRepository = \<lparr>users = Map.empty, nextID = 1, shouldFail = False\<rparr>"

definition Mock_GetUser :: "MockUserRepository \<Rightarrow> int32 \<Rightarrow> string + User" where
  "Mock_GetUser m id' =
     (if shouldFail m then Inl ''mock database error''
      else case users m id' of
             None \<Rightarrow> Inl ''user not found''
           | Some user \<Rightarrow> Inr user)"

definition Mock_CreateUser ::
    "MockUserRepository \<Rightarrow> CreateUserParams \<Rightarrow> (string + User) \<times> MockUserRepository" where
  "Mock_CreateUser m arg =
     (if shouldFail m then (Inl ''mock database error'', m)
      else
        (let user = \<lparr>u_ID = nextID m, u_Name = cp_Name arg, u_Dob = cp_Dob arg\<rparr>
         in (Inr user, m\<lparr>users := (users m)(nextID m \<mapsto> user), nextID := nextID m + 1\<rparr>)))"

definition Mock_UpdateUser ::
    "MockUserRepository \<Rightarrow> UpdateUserParams \<Rightarrow> (string + User) \<times> MockUserRepository" where
  "Mock_UpdateUser m arg =
     (if shouldFail m then (Inl ''mock database error'', m)
      else case users m (up_ID arg) of
             None \<Rightarrow> (Inl ''user not found'', m)
           | Some user \<Rightarrow>
               (let user' = user\<lparr>u_Name := up_Name arg, u_Dob := up_Dob arg\<rparr>
                in (Inr user', m\<lparr>users := (users m)(up_ID arg \<mapsto> user')\<rparr>)))"

definition Mock_DeleteUser ::
    "MockUserRepository \<Rightarrow> int32 \<Rightarrow> string option \<times> MockUserRepository" where
  "Mock_DeleteUser m id' =
     (if shouldFail m then (Some ''mock database error'', m)
      else if users m id' = None then (Some ''user not found'', m)
      else (None, m\<lparr>users := (users m)(id' := None)\<rparr>))"

definition Mock_SetShouldFail :: "MockUserRepository \<Rightarrow> bool \<Rightarrow> MockUserRepository" where
  "Mock_SetShouldFail m fail = m\<lparr>shouldFail := fail\<rparr>"

section \<open>The service\<close>

text \<open>
  \<^verbatim>\<open>UserService\<close> over the in-memory repository. \<open>now\<close> is the clock that
  \<^verbatim>\<open>calculateAge\<close> reads when the response is built. Log records are left out.
\<close>

definition Service_GetUser :: "Time \<Rightarrow> MockUserRepository \<Rightarrow> int32 \<Rightarrow> string + UserResponse" where
  "Service_GetUser now repo id' =
     (case Mock_GetUser repo id' of
        Inl err \<Rightarrow> Inl err
      | Inr dbUser \<Rightarrow>
          Inr \<lparr>r_ID = u_ID dbUser, r_Name = u_Name dbUser, r_DOB = u_Dob dbUser,
               r_Age = calculateAge now (u_Dob dbUser)\<rparr>)"

definition Service_CreateUser ::
    "Time \<Rightarrow> MockUserRepository \<Rightarrow> string \<Rightarrow> Time \<Rightarrow> (string + UserResponse) \<times> MockUserRepository" where
  "Service_CreateUser now repo name dob =
     (case Mock_CreateUser repo \<lparr>cp_Name = name, cp_Dob = dob\<rparr> of
        (Inl err, repo') \<Rightarrow> (Inl err, repo')
      | (Inr dbUser, repo') \<Rightarrow>
          (Inr \<lparr>r_ID = u_ID dbUser, r_Name = u_Name dbUser, r_DOB = u_Dob dbUser,
                r_Age = calculateAge now (u_Dob dbUser)\<rparr>, repo'))"

definition Service_UpdateUser ::
    "Time \<Rightarrow> MockUserRepository \<Rightarrow> int32 \<Rightarrow> string \<Rightarrow> Time
      \<Rightarrow> (string + UserResponse) \<times> MockUserRepository" where
  "Service_UpdateUser now repo id' name dob =
     (case Mock_UpdateUser repo \<lparr>up_ID = id', up_Name = name, up_Dob = dob\<rparr> of
        (Inl err, repo') \<Rightarrow> (Inl err, repo')
      | (Inr dbUser, repo') \<Rightarrow>
          (Inr \<lparr>r_ID = u_ID dbUser, r_Name = u_Name dbUser, r_DOB = u_Dob dbUser,
                r_Age = calculateAge now (u_Dob dbUser)\<rparr>, repo'))"

definition Service_DeleteUser ::
    "MockUserRepository \<Rightarrow> int32 \<Rightarrow> string option \<times> MockUserRepository" where
  "Service_DeleteUser repo id' =
     (case Mock_DeleteUser repo id' of
        (Some err, repo') \<Rightarrow> (Some err, repo')
      | (None, repo') \<Rightarrow> (None, repo'))"

section \<open>The HTTP handlers\<close>

text \<open>
  \<^verbatim>\<open>strconv.ParseInt(s, 10, 32)\<close>: an optional sign, then one or more decimal digits,
  and a value in the range of \<^verbatim>\<open>int32\<close>; \<open>None\<close> is the syntax or range error.
\<close>

definition ParseInt :: "string \<Rightarrow> int32 option" where
  "ParseInt s =
     (if s = [] then None
      else
        (let neg = (hd s = CHR ''-'');
             s0 = (if hd s = CHR ''+'' \<or> hd s = CHR ''-'' then tl s else s)
         in if s0 = [] \<or> \<not> list_all isDigit s0 then None
            else
              (let un = foldl (\<lambda>n c. n * 10 + digitVal c) 0 s0
               in if \<not> neg \<and> 2 ^ 31 \<le> un then None
                  else if neg \<and> 2 ^ 31 < un then None
                  else Some (word_of_int (if neg then - un else un)))))"

text \<open>
  What a handler writes: a status with the JSON object \<^verbatim>\<open>{"error": message}\<close>, a
  status with a user as JSON, or a status alone.
\<close>

datatype Response =
  JSON_error nat string
| JSON_user nat UserResponse
| SendStatus nat

text \<open>
  The handlers of \<^verbatim>\<open>UserHandler\<close>. \<open>idParam\<close> is \<^verbatim>\<open>c.Params("id")\<close>; \<open>body\<close> is what
  \<^verbatim>\<open>c.BodyParser\<close> decoded, \<open>None\<close> when it failed. \<open>vnow\<close> is the clock at validation
  and \<open>now\<close> the clock when the response is built.
\<close>

definition Handler_GetUser :: "Time \<Rightarrow> MockUserRepository \<Rightarrow> string \<Rightarrow> Response" where
  "Handler_GetUser now repo idParam =
     (case ParseInt idParam of
        None \<Rightarrow> JSON_error 400 ''invalid user id''
      | Some id' \<Rightarrow>
          (case Service_GetUser now repo id' of
             Inl err \<Rightarrow> JSON_error 404 ''user not found''
           | Inr dbUser \<Rightarrow> JSON_user 200 dbUser))"

definition Handler_CreateUser ::
    "Time \<Rightarrow> Time \<Rightarrow> MockUserRepository \<Rightarrow> CreateUserRequest option
      \<Rightarrow> Response \<times> MockUserRepository" where
  "Handler_CreateUser vnow now repo body =
     (case body of
        None \<Rightarrow> (JSON_error 400 ''invalid request body'', repo)
      | Some req \<Rightarrow>
          (case ValidateStruct vnow req of
             Some err \<Rightarrow> (JSON_error 400 err, repo)
           | None \<Rightarrow>
               (case Parse (req_DOB req) of
                  None \<Rightarrow> (JSON_error 400 ''invalid date format (Use YYYY-MM-DD)'', repo)
                | Some dob \<Rightarrow>
                    (case Service_CreateUser now repo (req_Name req) dob of
                       (Inl err, repo') \<Rightarrow> (JSON_error 500 ''failed to create user'', repo')
                     | (Inr dbUser, repo') \<Rightarrow> (JSON_user 200 dbUser, repo')))))"

definition Handler_UpdateUser ::
    "Time \<Rightarrow> Time \<Rightarrow> MockUserRepository \<Rightarrow> string \<Rightarrow> UpdateUserRequest option
      \<Rightarrow> Response \<times> MockUserRepository" where
  "Handler_UpdateUser vnow now repo idParam body =
     (case ParseInt idParam of
        None \<Rightarrow> (JSON_error 400 ''invalid user id'', repo)
      | Some id' \<Rightarrow>
          (case body of
             None \<Rightarrow> (JSON_error 400 ''invalid request body'', repo)
           | Some req \<Rightarrow>
               (case ValidateStruct vnow req of
                  Some err \<Rightarrow> (JSON_error 400 err, repo)
                | None \<Rightarrow>
                    (case Parse (req_DOB req) of
                       None \<Rightarrow> (JSON_error 400 ''invalid data format (use YYYY-MM-DD)'', repo)
                     | Some dob \<Rightarrow>
                         (case Service_UpdateUser now repo id' (req_Name req) dob of
                            (Inl err, repo') \<Rightarrow> (JSON_error 500 ''failed to update user'', repo')
                          | (Inr user, repo') \<Rightarrow> (JSON_user 200 user, repo'))))))"

definition Handler_DeleteUser ::
    "MockUserRepository \<Rightarrow> string \<Rightarrow> Response \<times> MockUserRepository" where
  "Handler_DeleteUser repo idParam =
     (case ParseInt idParam of
        None \<Rightarrow> (JSON_error 400 ''invalid user id'', repo)
      | Some id' \<Rightarrow>
          (case Service_DeleteUser repo id' of
             (Some err, repo') \<Rightarrow> (JSON_error 500 ''failed to delete user'', repo')
           | (None, repo') \<Rightarrow> (SendStatus 204, repo')))"

section \<open>The system test runner\<close>

text \<open>
  \<^verbatim>\<open>TestResult\<close> and the runner's workflows of internal/test (the same in
  cmd/test/main.go): validate, parse, call the service. The text of the error of
  \<^verbatim>\<open>time.Parse\<close> is not modelled: it stands as "parsing time".
\<close>

record TestResult =
  tr_Success :: bool
  tr_Message :: string
  tr_Data :: "UserResponse option"
  tr_Error :: "string option"

definition RunCreateUserTest ::
    "Time \<Rightarrow> Time \<Rightarrow> MockUserRepository \<Rightarrow> string \<Rightarrow> string
      \<Rightarrow> TestResult \<times> MockUserRepository" where
  "RunCreateUserTest vnow now repo name dob =
     (case ValidateStruct vnow \<lparr>req_Name = name, req_DOB = dob\<rparr> of
        Some err \<Rightarrow>
          (\<lparr>tr_Success = False, tr_Message = ''Validation failed'', tr_Data = None,
            tr_Error = Some err\<rparr>, repo)
      | None \<Rightarrow>
          (case Parse dob of
             None \<Rightarrow>
               (\<lparr>tr_Success = False, tr_Message = ''Date parsing failed'', tr_Data = None,
                 tr_Error = Some ''parsing time''\<rparr>, repo)
           | Some parsedDOB \<Rightarrow>
               (case Service_CreateUser now repo name parsedDOB of
                  (Inl err, repo') \<Rightarrow>
                    (\<lparr>tr_Success = False, tr_Message = ''Service call failed'', tr_Data = None,
                      tr_Error = Some err\<rparr>, repo')
                | (Inr user, repo') \<Rightarrow>
                    (\<lparr>tr_Success = True, tr_Message = ''User created successfully'',
                      tr_Data = Some user, tr_Error = None\<rparr>, repo'))))"

definition RunGetUserTest :: "Time \<Rightarrow> MockUserRepository \<Rightarrow> int32 \<Rightarrow> TestResult" where
  "RunGetUserTest now repo id' =
     (case Service_GetUser now repo id' of
        Inl err \<Rightarrow>
          \<lparr>tr_Success = False, tr_Message = ''Failed to get user'', tr_Data = None,
           tr_Error = Some err\<rparr>
      | Inr user \<Rightarrow>
          \<lparr>tr_Success = True, tr_Message = ''User retrieved successfully'',
           tr_Data = Some user, tr_Error = None\<rparr>)"

section \<open>Histories of the repository\<close>

text \<open>
  A history is a list of calls made on one repository, in order. \<open>apply_op\<close> is the
  repository after a call and \<open>issued\<close> the identifier the call gave to a new record, if
  it created one.
\<close>

datatype Op =
  OpCreate CreateUserParams
| OpUpdate UpdateUserParams
| OpDelete int32
| OpGet int32
| OpSetShouldFail bool

fun apply_op :: "Op \<Rightarrow> MockUserRepository \<Rightarrow> MockUserRepository" where
  "apply_op (OpCreate arg) m = snd (Mock_CreateUser m arg)"
| "apply_op (OpUpdate arg) m = snd (Mock_UpdateUser m arg)"
| "apply_op (OpDelete i) m = snd (Mock_DeleteUser m i)"
| "apply_op (OpGet i) m = m"
| "apply_op (OpSetShouldFail b) m = Mock_SetShouldFail m b"

fun issued :: "Op \<Rightarrow> MockUserRepository \<Rightarrow> int32 list" where
  "issued (OpCreate arg) m =
     (case fst (Mock_CreateUser m arg) of Inl err \<Rightarrow> [] | Inr user \<Rightarrow> [u_ID user])"
| "issued _ m = []"

fun run :: "Op list \<Rightarrow> MockUserRepository \<Rightarrow> MockUserRepository" where
  "run [] m = m"
| "run (x # xs) m = run xs (apply_op x m)"

fun issuedIDs :: "Op list \<Rightarrow> MockUserRepository \<Rightarrow> int32 list" where
  "issuedIDs [] m = []"
| "issuedIDs (x # xs) m = issued x m @ issuedIDs xs (apply_op x m)"

text \<open>\<open>keyed m\<close>: every stored record has the identifier it is stored under.\<close>

definition keyed :: "MockUserRepository \<Rightarrow> bool" where
  "keyed m = (\<forall>i u. users m i = Some u \<longrightarrow> u_ID u = i)"

text \<open>
  \<open>churn n m\<close>: \<open>n\<close> times in a row, create a record and delete it again.
\<close>

fun churn :: "nat \<Rightarrow> CreateUserParams \<Rightarrow> MockUserRepository \<Rightarrow> MockUserRepository" where
  "churn 0 arg m = m"
| "churn (Suc n) arg m =
     churn n arg (snd (Mock_DeleteUser (snd (Mock_CreateUser m arg)) (nextID m)))"

section \<open>Age calculation\<close>

text \<open>
  C1. For every date of birth and reference \<open>now\<close>, the age is \<open>now.year - dob.year\<close>,
  minus one exactly when \<open>now.month < dob.month\<close>, or the months are equal and
  \<open>now.day < dob.day\<close>. The age of a person born today is 0, the age of a person born on
  this month and day one year ago is 1, and the age is 0 for every birth date within
  the last 12 months.
\<close>

theorem calculateAge_spec:
  "calculateAge now dob =
     Year now - Year dob -
       (if Month now < Month dob \<or> (Month now = Month dob \<and> Day now < Day dob) then 1 else 0)
   \<and> calculateAge now now = 0
   \<and> calculateAge now (now\<lparr>Year := Year now - 1\<rparr>) = 1
   \<and> (withinLast12Months dob now \<longrightarrow> calculateAge now dob = 0)"
  unfolding calculateAge_def withinLast12Months_def dateBefore_def Let_def
  by auto

theorem calculateAge_spec_witness:
  "withinLast12Months \<lparr>Year = 2025, Month = 11, Day = 2, Nanos = 0\<rparr>
       \<lparr>Year = 2026, Month = 10, Day = 30, Nanos = 0\<rparr>
   \<and> calculateAge \<lparr>Year = 2026, Month = 10, Day = 30, Nanos = 0\<rparr>
       \<lparr>Year = 2025, Month = 11, Day = 2, Nanos = 0\<rparr> = 0"
  using calculateAge_spec [of "\<lparr>Year = 2026, Month = 10, Day = 30, Nanos = 0\<rparr>"
      "\<lparr>Year = 2025, Month = 11, Day = 2, Nanos = 0\<rparr>"]
  by (simp add: withinLast12Months_def dateBefore_def)

text \<open>
  C10. The age calculation has no guard against a future date: whenever the year of the
  date of birth is strictly greater than the current year, the result is strictly
  negative.
\<close>

theorem calculateAge_future_negative:
  "Year now < Year dob \<Longrightarrow> calculateAge now dob < 0"
  unfolding calculateAge_def Let_def by auto

theorem calculateAge_future_negative_witness:
  "Year \<lparr>Year = 2026, Month = 10, Day = 30, Nanos = 0\<rparr>
     < Year \<lparr>Year = 2099, Month = 1, Day = 15, Nanos = 0\<rparr>
   \<and> calculateAge \<lparr>Year = 2026, Month = 10, Day = 30, Nanos = 0\<rparr>
       \<lparr>Year = 2099, Month = 1, Day = 15, Nanos = 0\<rparr> < 0"
  using calculateAge_future_negative [of "\<lparr>Year = 2026, Month = 10, Day = 30, Nanos = 0\<rparr>"
      "\<lparr>Year = 2099, Month = 1, Day = 15, Nanos = 0\<rparr>"]
  by simp

section \<open>Validation\<close>

lemma Parse_midnight: "Parse s = Some d \<Longrightarrow> Nanos d = 0"
  by (induction s rule: Parse.induct) (auto simp: Let_def split: if_splits)

lemma isGte_one: "isGte (Suc 0) v = (v \<noteq> [])"
  by (cases v) (simp_all add: isGte_def)

lemma traverseField_Name:
  "traverseField now ''Name'' v NameTags =
     (if v = [] then [\<lparr>fe_Field = ''Name'', fe_Tag = ''required'', fe_Param = []\<rparr>]
      else if 255 < RuneCountInString v
        then [\<lparr>fe_Field = ''Name'', fe_Tag = ''max'', fe_Param = ''255''\<rparr>]
      else [])"
  by (simp add: NameTags_def hasValue_def isGte_one isLte_def not_le)

lemma traverseField_DOB:
  "traverseField now ''DOB'' v DOBTags =
     (case Parse v of
        None \<Rightarrow> if v = [] then [\<lparr>fe_Field = ''DOB'', fe_Tag = ''required'', fe_Param = []\<rparr>]
                else [\<lparr>fe_Field = ''DOB'', fe_Tag = ''dateformat'', fe_Param = []\<rparr>]
      | Some dob \<Rightarrow> if Before dob now then []
                else [\<lparr>fe_Field = ''DOB'', fe_Tag = ''notfuture'', fe_Param = []\<rparr>])"
  by (cases v) (auto simp add: DOBTags_def hasValue_def validateDateFormat_def validateNotFuture_def split: option.splits)

lemma ValidateStruct_unfold:
  "ValidateStruct now req =
    (let nameMsgs =
           (if req_Name req = [] then [''Name is required'']
            else if 255 < RuneCountInString (req_Name req)
              then [''Name must be at most 255 characters'']
            else []);
         dobMsgs =
           (case Parse (req_DOB req) of
              None \<Rightarrow> if req_DOB req = [] then [''DOB is required'']
                      else [''DOB must be in YYYY-MM-DD format'']
            | Some dob \<Rightarrow> if Before dob now then [] else [''DOB cannot be in the future''])
     in if nameMsgs @ dobMsgs = [] then None else Some (Join (nameMsgs @ dobMsgs) ''; ''))"
  unfolding ValidateStruct_def validate_Struct_def traverseField_Name traverseField_DOB
    formatValidationErrors_def Let_def
  by (simp add: getErrorMessage_def split: option.splits)

lemma RuneCountInString_le_length: "RuneCountInString s \<le> length s"
proof (induction s rule: RuneCountInString.induct)
  case 1
  then show ?case by simp
next
  case (2 c cs)
  have "length (drop (runeSize c cs - 1) cs) \<le> length cs" by simp
  with 2 show ?case by simp
qed

lemma short_name_ok: "length s \<le> 255 \<Longrightarrow> \<not> 255 < RuneCountInString s"
  using RuneCountInString_le_length [of s] by simp

lemma dateBefore_not_Before: "dateBefore now d \<Longrightarrow> \<not> Before d now"
  by (auto simp: Before_def dateBefore_def)

lemma Before_not_dateBefore: "Before d now \<Longrightarrow> \<not> dateBefore now d"
  by (auto simp: Before_def dateBefore_def)

lemma ValidateStruct_None_Parse:
  "ValidateStruct vnow req = None \<Longrightarrow> \<exists>d. Parse (req_DOB req) = Some d \<and> Before d vnow"
  by (auto simp: ValidateStruct_unfold Let_def split: if_splits option.splits)

lemma ValidateStruct_future:
  assumes "Parse (req_DOB req) = Some d" and "\<not> Before d now"
  shows "\<exists>pre. ValidateStruct now req = Some (pre @ ''DOB cannot be in the future'')"
proof -
  have "ValidateStruct now req = Some ([] @ ''DOB cannot be in the future'')
      \<or> ValidateStruct now req = Some (''Name is required; '' @ ''DOB cannot be in the future'')
      \<or> ValidateStruct now req =
          Some (''Name must be at most 255 characters; '' @ ''DOB cannot be in the future'')"
    using assms by (simp add: ValidateStruct_unfold)
  then show ?thesis by blast
qed

text \<open>
  C2, as the code has it. For every request whose dateOfBirth parses under YYYY-MM-DD:
  when the date is after the current date, validation fails and the error ends with the
  future-date message; when the date is the current date, the not-future rule holds
  exactly when the clock is past midnight, so a date of birth of today passes it at
  every instant but midnight itself; and every accepted dateOfBirth parses to a date
  whose midnight is strictly before the current instant, a date that is not after the
  current date.
\<close>

theorem notfuture_rejects_later_dates:
  "(Parse (req_DOB req) = Some d \<and> dateBefore now d \<longrightarrow>
      (\<exists>pre. ValidateStruct now req = Some (pre @ ''DOB cannot be in the future'')))
   \<and> (Parse (req_DOB req) = Some d \<and> Day d = Day now \<and> Month d = Month now
        \<and> Year d = Year now \<longrightarrow>
      validateNotFuture now (req_DOB req) = (0 < Nanos now))
   \<and> (ValidateStruct now req = None \<longrightarrow>
      (\<exists>d'. Parse (req_DOB req) = Some d' \<and> Before d' now \<and> \<not> dateBefore now d'))"
proof (intro conjI impI)
  assume "Parse (req_DOB req) = Some d \<and> dateBefore now d"
  then show "\<exists>pre. ValidateStruct now req = Some (pre @ ''DOB cannot be in the future'')"
    using ValidateStruct_future dateBefore_not_Before by blast
next
  assume a: "Parse (req_DOB req) = Some d \<and> Day d = Day now \<and> Month d = Month now
        \<and> Year d = Year now"
  then have "Nanos d = 0" using Parse_midnight by blast
  with a show "validateNotFuture now (req_DOB req) = (0 < Nanos now)"
    by (simp add: validateNotFuture_def Before_def dateBefore_def)
next
  assume "ValidateStruct now req = None"
  then show "\<exists>d'. Parse (req_DOB req) = Some d' \<and> Before d' now \<and> \<not> dateBefore now d'"
    using ValidateStruct_None_Parse Before_not_dateBefore by blast
qed

text \<open>
  At noon of 2026-10-30 the date of birth 2099-01-15 is refused, the date of birth
  2026-10-30 passes the not-future rule, and the date of birth 1990-01-15 is accepted.
\<close>

theorem notfuture_rejects_later_dates_witness:
  "Parse (req_DOB \<lparr>req_Name = ''X'', req_DOB = ''2099-01-15''\<rparr>)
     = Some \<lparr>Year = 2099, Month = 1, Day = 15, Nanos = 0\<rparr>
   \<and> dateBefore \<lparr>Year = 2026, Month = 10, Day = 30, Nanos = 43200000000000\<rparr>
       \<lparr>Year = 2099, Month = 1, Day = 15, Nanos = 0\<rparr>
   \<and> (\<exists>pre. ValidateStruct \<lparr>Year = 2026, Month = 10, Day = 30, Nanos = 43200000000000\<rparr>
         \<lparr>req_Name = ''X'', req_DOB = ''2099-01-15''\<rparr>
       = Some (pre @ ''DOB cannot be in the future''))
   \<and> Parse (req_DOB \<lparr>req_Name = ''X'', req_DOB = ''2026-10-30''\<rparr>)
     = Some \<lparr>Year = 2026, Month = 10, Day = 30, Nanos = 0\<rparr>
   \<and> validateNotFuture \<lparr>Year = 2026, Month = 10, Day = 30, Nanos = 43200000000000\<rparr>
       (req_DOB \<lparr>req_Name = ''X'', req_DOB = ''2026-10-30''\<rparr>)
   \<and> ValidateStruct \<lparr>Year = 2026, Month = 10, Day = 30, Nanos = 43200000000000\<rparr>
       \<lparr>req_Name = ''X'', req_DOB = ''1990-01-15''\<rparr> = None
   \<and> (\<exists>d'. Parse (req_DOB \<lparr>req_Name = ''X'', req_DOB = ''1990-01-15''\<rparr>) = Some d'
         \<and> Before d' \<lparr>Year = 2026, Month = 10, Day = 30, Nanos = 43200000000000\<rparr>)"
proof -
  let ?now = "\<lparr>Year = 2026, Month = 10, Day = 30, Nanos = 43200000000000\<rparr>"
  let ?later = "\<lparr>req_Name = ''X'', req_DOB = ''2099-01-15''\<rparr>"
  let ?d = "\<lparr>Year = 2099, Month = 1, Day = 15, Nanos = 0\<rparr>"
  let ?today = "\<lparr>req_Name = ''X'', req_DOB = ''2026-10-30''\<rparr>"
  let ?t = "\<lparr>Year = 2026, Month = 10, Day = 30, Nanos = 0\<rparr>"
  let ?past = "\<lparr>req_Name = ''X'', req_DOB = ''1990-01-15''\<rparr>"
  have p: "Parse (req_DOB ?later) = Some ?d"
    by (simp add: isDigit_def digitVal_def daysIn_def)
  have b: "dateBefore ?now ?d"
    by (simp add: dateBefore_def)
  from notfuture_rejects_later_dates [of ?later ?d ?now] p b
  have 1: "\<exists>pre. ValidateStruct ?now ?later = Some (pre @ ''DOB cannot be in the future'')"
    by blast
  have q: "Parse (req_DOB ?today) = Some ?t"
    by (simp add: isDigit_def digitVal_def daysIn_def)
  have "Day ?t = Day ?now \<and> Month ?t = Month ?now \<and> Year ?t = Year ?now"
    by simp
  with notfuture_rejects_later_dates [of ?today ?t ?now] q
  have "validateNotFuture ?now (req_DOB ?today) = (0 < Nanos ?now)"
    by blast
  then have 2: "validateNotFuture ?now (req_DOB ?today)"
    by simp
  have r: "Parse ''1990-01-15'' = Some \<lparr>Year = 1990, Month = 1, Day = 15, Nanos = 0\<rparr>"
    by (simp add: isDigit_def digitVal_def daysIn_def)
  have n: "\<not> 255 < RuneCountInString ''X''"
    by (rule short_name_ok) simp
  have v: "ValidateStruct ?now ?past = None"
    unfolding ValidateStruct_unfold
    by (simp add: r n Before_def dateBefore_def del: Parse.simps RuneCountInString.simps)
  with notfuture_rejects_later_dates [of ?past _ ?now]
  have 3: "\<exists>d'. Parse (req_DOB ?past) = Some d' \<and> Before d' ?now"
    by blast
  from p b 1 q 2 v 3 show ?thesis
    by blast
qed

text \<open>
  C2 as stated fails: at noon of 2026-10-30 the date of birth 2026-10-30 parses to the
  current date, which is not before the current date, and the request is accepted.
\<close>

theorem dob_of_today_accepted_counterexample:
  "Parse ''2026-10-30'' = Some \<lparr>Year = 2026, Month = 10, Day = 30, Nanos = 0\<rparr>
   \<and> \<not> dateBefore \<lparr>Year = 2026, Month = 10, Day = 30, Nanos = 0\<rparr>
         \<lparr>Year = 2026, Month = 10, Day = 30, Nanos = 43200000000000\<rparr>
   \<and> ValidateStruct \<lparr>Year = 2026, Month = 10, Day = 30, Nanos = 43200000000000\<rparr>
       \<lparr>req_Name = ''John Doe'', req_DOB = ''2026-10-30''\<rparr> = None"
proof -
  have p: "Parse ''2026-10-30'' = Some \<lparr>Year = 2026, Month = 10, Day = 30, Nanos = 0\<rparr>"
    by (simp add: isDigit_def digitVal_def daysIn_def)
  have n: "\<not> 255 < RuneCountInString ''John Doe''"
    by (rule short_name_ok) simp
  show ?thesis
    unfolding ValidateStruct_unfold
    by (simp add: p n dateBefore_def Before_def del: Parse.simps RuneCountInString.simps)
qed

lemma filter_DOB_Name:
  "filter (\<lambda>fe. fe_Field fe = ''DOB'') (traverseField now ''Name'' v NameTags) = []"
  by (simp add: traverseField_Name)

text \<open>
  C3, as the code has it. For every request whose dateOfBirth does not parse under
  YYYY-MM-DD, the format rule and the not-future rule are both false of it and
  validation fails, but the DOB field reports one error only: \<^verbatim>\<open>required\<close> when
  the string is empty and \<^verbatim>\<open>dateformat\<close> otherwise, and the error string ends with
  the message of that rule. The not-future rule is not run and its message is not
  reported.
\<close>

theorem unparseable_dob_one_message:
  "Parse (req_DOB req) = None \<Longrightarrow>
     \<not> validateDateFormat (req_DOB req) \<and> \<not> validateNotFuture now (req_DOB req)
     \<and> filter (\<lambda>fe. fe_Field fe = ''DOB'') (validate_Struct now req) =
         [\<lparr>fe_Field = ''DOB'',
           fe_Tag = (if req_DOB req = [] then ''required'' else ''dateformat''),
           fe_Param = []\<rparr>]
     \<and> (\<exists>pre. ValidateStruct now req =
          Some (pre @ (if req_DOB req = [] then ''DOB is required''
                       else ''DOB must be in YYYY-MM-DD format'')))"
proof (intro conjI)
  assume p: "Parse (req_DOB req) = None"
  show "\<not> validateDateFormat (req_DOB req)"
    using p by (simp add: validateDateFormat_def)
  show "\<not> validateNotFuture now (req_DOB req)"
    using p by (simp add: validateNotFuture_def)
  show "filter (\<lambda>fe. fe_Field fe = ''DOB'') (validate_Struct now req) =
         [\<lparr>fe_Field = ''DOB'',
           fe_Tag = (if req_DOB req = [] then ''required'' else ''dateformat''),
           fe_Param = []\<rparr>]"
    unfolding validate_Struct_def filter_append filter_DOB_Name traverseField_DOB
    using p by simp
  let ?m = "if req_DOB req = [] then ''DOB is required''
            else ''DOB must be in YYYY-MM-DD format''"
  have "ValidateStruct now req = Some ([] @ ?m)
      \<or> ValidateStruct now req = Some (''Name is required; '' @ ?m)
      \<or> ValidateStruct now req = Some (''Name must be at most 255 characters; '' @ ?m)"
    using p by (simp add: ValidateStruct_unfold)
  then show "\<exists>pre. ValidateStruct now req = Some (pre @ ?m)"
    by blast
qed

text \<open>The date of birth 05-15-1990 of the system test.\<close>

theorem unparseable_dob_one_message_witness:
  "Parse (req_DOB \<lparr>req_Name = ''John Doe'', req_DOB = ''05-15-1990''\<rparr>) = None
   \<and> \<not> validateNotFuture \<lparr>Year = 2026, Month = 10, Day = 30, Nanos = 43200000000000\<rparr>
         (req_DOB \<lparr>req_Name = ''John Doe'', req_DOB = ''05-15-1990''\<rparr>)
   \<and> filter (\<lambda>fe. fe_Field fe = ''DOB'')
        (validate_Struct \<lparr>Year = 2026, Month = 10, Day = 30, Nanos = 43200000000000\<rparr>
           \<lparr>req_Name = ''John Doe'', req_DOB = ''05-15-1990''\<rparr>)
       = [\<lparr>fe_Field = ''DOB'', fe_Tag = ''dateformat'', fe_Param = []\<rparr>]"
proof -
  let ?req = "\<lparr>req_Name = ''John Doe'', req_DOB = ''05-15-1990''\<rparr>"
  have p: "Parse (req_DOB ?req) = None"
    by (simp add: isDigit_def)
  from unparseable_dob_one_message [OF p,
      of "\<lparr>Year = 2026, Month = 10, Day = 30, Nanos = 43200000000000\<rparr>"] p
  show ?thesis by simp
qed

text \<open>
  C3 as stated fails: for the request ("Jane Doe", "01-15-1990") the only message is the
  one of the format rule.
\<close>

theorem bad_format_only_format_message_counterexample:
  "Parse ''01-15-1990'' = None
   \<and> map getErrorMessage
        (validate_Struct \<lparr>Year = 2026, Month = 10, Day = 30, Nanos = 43200000000000\<rparr>
           \<lparr>req_Name = ''Jane Doe'', req_DOB = ''01-15-1990''\<rparr>)
       = [''DOB must be in YYYY-MM-DD format'']
   \<and> ValidateStruct \<lparr>Year = 2026, Month = 10, Day = 30, Nanos = 43200000000000\<rparr>
        \<lparr>req_Name = ''Jane Doe'', req_DOB = ''01-15-1990''\<rparr>
       = Some ''DOB must be in YYYY-MM-DD format''"
proof -
  have p: "Parse ''01-15-1990'' = None"
    by (simp add: isDigit_def)
  have n: "\<not> 255 < RuneCountInString ''Jane Doe''"
    by (rule short_name_ok) simp
  have v: "validate_Struct \<lparr>Year = 2026, Month = 10, Day = 30, Nanos = 43200000000000\<rparr>
           \<lparr>req_Name = ''Jane Doe'', req_DOB = ''01-15-1990''\<rparr>
         = [\<lparr>fe_Field = ''DOB'', fe_Tag = ''dateformat'', fe_Param = []\<rparr>]"
    unfolding validate_Struct_def traverseField_Name traverseField_DOB
    by (simp add: p n del: Parse.simps RuneCountInString.simps)
  show ?thesis
    unfolding ValidateStruct_def formatValidationErrors_def v
    by (simp add: p getErrorMessage_def del: Parse.simps)
qed

text \<open>
  C4, as the code has it. The error string of an invalid request is the messages of
  its fields joined with "; ", the Name field before the DOB field, with at most one
  message for each field: the message of the first rule of the field that fails, in
  the order required, min, max for Name and required, dateformat, notfuture for DOB.
  The messages carry the Go names of the fields: "Name is required", "Name must be at
  most 255 characters", "DOB is required", "DOB must be in YYYY-MM-DD format" and "DOB
  cannot be in the future". A request with no failing field is accepted.
\<close>

theorem ValidateStruct_messages:
  "ValidateStruct now req =
    (let nameMsgs =
           (if req_Name req = [] then [''Name is required'']
            else if 255 < RuneCountInString (req_Name req)
              then [''Name must be at most 255 characters'']
            else []);
         dobMsgs =
           (case Parse (req_DOB req) of
              None \<Rightarrow> if req_DOB req = [] then [''DOB is required'']
                      else [''DOB must be in YYYY-MM-DD format'']
            | Some dob \<Rightarrow> if Before dob now then [] else [''DOB cannot be in the future''])
     in if nameMsgs @ dobMsgs = [] then None else Some (Join (nameMsgs @ dobMsgs) ''; ''))"
  by (rule ValidateStruct_unfold)

text \<open>An empty name with a date of birth in 2099: one message for each field.\<close>

theorem ValidateStruct_messages_witness:
  "ValidateStruct \<lparr>Year = 2026, Month = 10, Day = 30, Nanos = 43200000000000\<rparr>
     \<lparr>req_Name = [], req_DOB = ''2099-01-15''\<rparr>
   = Some ''Name is required; DOB cannot be in the future''"
proof -
  have p: "Parse ''2099-01-15'' = Some \<lparr>Year = 2099, Month = 1, Day = 15, Nanos = 0\<rparr>"
    by (simp add: isDigit_def digitVal_def daysIn_def)
  show ?thesis
    unfolding ValidateStruct_messages
    by (simp add: p Before_def dateBefore_def del: Parse.simps)
qed

text \<open>
  C4 as stated fails: the request with an empty name and the date of birth "abc" also
  violates the minimum length of the name and the not-future rule, and neither is
  reported; the messages name the fields Name and DOB.
\<close>

theorem one_message_per_field_counterexample:
  "\<not> isGte 1 (req_Name \<lparr>req_Name = [], req_DOB = ''abc''\<rparr>)
   \<and> \<not> validateNotFuture \<lparr>Year = 2026, Month = 10, Day = 30, Nanos = 43200000000000\<rparr>
         (req_DOB \<lparr>req_Name = [], req_DOB = ''abc''\<rparr>)
   \<and> ValidateStruct \<lparr>Year = 2026, Month = 10, Day = 30, Nanos = 43200000000000\<rparr>
        \<lparr>req_Name = [], req_DOB = ''abc''\<rparr>
       = Some ''Name is required; DOB must be in YYYY-MM-DD format''"
  by (simp add: isGte_def validateNotFuture_def ValidateStruct_unfold)

section \<open>Handlers, service and repository\<close>

text \<open>
  C5. When a Create or Update request fails validation, the handler answers with the
  validation error (status 400) and the repository it returns is the one it was given,
  whatever its state: no call reaches it, not even when it is set to fail. The same
  holds of the test runner's create workflow.
\<close>

theorem validation_failure_before_persistence:
  "ValidateStruct vnow req = Some err \<Longrightarrow>
     Handler_CreateUser vnow now repo (Some req) = (JSON_error 400 err, repo)
     \<and> Handler_UpdateUser vnow now repo idParam (Some req) =
         (JSON_error 400 (if ParseInt idParam = None then ''invalid user id'' else err), repo)
     \<and> RunCreateUserTest vnow now repo (req_Name req) (req_DOB req) =
         (\<lparr>tr_Success = False, tr_Message = ''Validation failed'', tr_Data = None,
           tr_Error = Some err\<rparr>, repo)"
proof -
  assume v: "ValidateStruct vnow req = Some err"
  have r: "\<lparr>req_Name = req_Name req, req_DOB = req_DOB req\<rparr> = req"
    by simp
  have c: "Handler_CreateUser vnow now repo (Some req) = (JSON_error 400 err, repo)"
    by (simp add: Handler_CreateUser_def v)
  have u: "Handler_UpdateUser vnow now repo idParam (Some req) =
         (JSON_error 400 (if ParseInt idParam = None then ''invalid user id'' else err), repo)"
    by (simp add: Handler_UpdateUser_def v split: option.splits)
  have t: "RunCreateUserTest vnow now repo (req_Name req) (req_DOB req) =
         (\<lparr>tr_Success = False, tr_Message = ''Validation failed'', tr_Data = None,
           tr_Error = Some err\<rparr>, repo)"
    unfolding RunCreateUserTest_def r by (simp add: v)
  from c u t show ?thesis by blast
qed

text \<open>
  The request with an empty name, on a repository set to fail every call: the answer is
  the validation error, not a persistence error.
\<close>

theorem validation_failure_before_persistence_witness:
  "ValidateStruct \<lparr>Year = 2026, Month = 10, Day = 30, Nanos = 43200000000000\<rparr>
     \<lparr>req_Name = [], req_DOB = ''1990-01-15''\<rparr> = Some ''Name is required''
   \<and> Handler_CreateUser \<lparr>Year = 2026, Month = 10, Day = 30, Nanos = 43200000000000\<rparr>
       \<lparr>Year = 2026, Month = 10, Day = 30, Nanos = 43200000000001\<rparr>
       (NewMockUserRepository\<lparr>shouldFail := True\<rparr>)
       (Some \<lparr>req_Name = [], req_DOB = ''1990-01-15''\<rparr>)
     = (JSON_error 400 ''Name is required'', NewMockUserRepository\<lparr>shouldFail := True\<rparr>)"
proof -
  have p: "Parse ''1990-01-15'' = Some \<lparr>Year = 1990, Month = 1, Day = 15, Nanos = 0\<rparr>"
    by (simp add: isDigit_def digitVal_def daysIn_def)
  have v: "ValidateStruct \<lparr>Year = 2026, Month = 10, Day = 30, Nanos = 43200000000000\<rparr>
     \<lparr>req_Name = [], req_DOB = ''1990-01-15''\<rparr> = Some ''Name is required''"
    unfolding ValidateStruct_unfold
    by (simp add: p Before_def dateBefore_def del: Parse.simps)
  from validation_failure_before_persistence [OF v] v show ?thesis
    by blast
qed

text \<open>
  C6. On the new repository, which has no record 999, \<^verbatim>\<open>GetUser\<close> answers 404 "user
  not found", while \<^verbatim>\<open>UpdateUser\<close> with a valid body and \<^verbatim>\<open>DeleteUser\<close> answer 500:
  the two handlers give every error of the service the server-error status, also the
  error of a record that does not exist.
\<close>

theorem missing_id_status_codes:
  "Handler_GetUser \<lparr>Year = 2026, Month = 10, Day = 30, Nanos = 43200000000000\<rparr>
       NewMockUserRepository ''999''
     = JSON_error 404 ''user not found''
   \<and> Handler_UpdateUser \<lparr>Year = 2026, Month = 10, Day = 30, Nanos = 43200000000000\<rparr>
       \<lparr>Year = 2026, Month = 10, Day = 30, Nanos = 43200000000001\<rparr>
       NewMockUserRepository ''999'' (Some \<lparr>req_Name = ''X'', req_DOB = ''1990-01-15''\<rparr>)
     = (JSON_error 500 ''failed to update user'', NewMockUserRepository)
   \<and> Handler_DeleteUser NewMockUserRepository ''999''
     = (JSON_error 500 ''failed to delete user'', NewMockUserRepository)"
proof -
  have i: "ParseInt ''999'' = Some 999"
    by (simp add: ParseInt_def isDigit_def digitVal_def)
  have p: "Parse ''1990-01-15'' = Some \<lparr>Year = 1990, Month = 1, Day = 15, Nanos = 0\<rparr>"
    by (simp add: isDigit_def digitVal_def daysIn_def)
  have n: "\<not> 255 < RuneCountInString ''X''"
    by (rule short_name_ok) simp
  have v: "ValidateStruct \<lparr>Year = 2026, Month = 10, Day = 30, Nanos = 43200000000000\<rparr>
     \<lparr>req_Name = ''X'', req_DOB = ''1990-01-15''\<rparr> = None"
    unfolding ValidateStruct_unfold
    by (simp add: p n Before_def dateBefore_def del: Parse.simps RuneCountInString.simps)
  show ?thesis
    by (simp add: Handler_GetUser_def Handler_UpdateUser_def Handler_DeleteUser_def i v p
        Service_GetUser_def Service_UpdateUser_def Service_DeleteUser_def
        Mock_GetUser_def Mock_UpdateUser_def Mock_DeleteUser_def NewMockUserRepository_def
        del: Parse.simps)
qed

text \<open>
  C7. For every name and date of birth that pass validation, on a repository that is
  not set to fail, the create workflow succeeds, the response carries the name, the
  parsed date of birth and the age that \<^verbatim>\<open>calculateAge\<close> gives for it at the current
  time, and a Get of the returned identifier at any later time succeeds with the same
  identifier, name and date of birth (and the age of that time).
\<close>

theorem create_then_get:
  assumes valid: "ValidateStruct vnow \<lparr>req_Name = name, req_DOB = dob\<rparr> = None"
    and up: "\<not> shouldFail repo"
  shows "\<exists>d resp repo'.
      Parse dob = Some d
      \<and> RunCreateUserTest vnow now repo name dob =
          (\<lparr>tr_Success = True, tr_Message = ''User created successfully'',
            tr_Data = Some resp, tr_Error = None\<rparr>, repo')
      \<and> r_ID resp = nextID repo \<and> r_Name resp = name \<and> r_DOB resp = d
      \<and> r_Age resp = calculateAge now d
      \<and> RunGetUserTest now' repo' (r_ID resp) =
          \<lparr>tr_Success = True, tr_Message = ''User retrieved successfully'',
           tr_Data = Some (resp\<lparr>r_Age := calculateAge now' d\<rparr>), tr_Error = None\<rparr>"
proof -
  from ValidateStruct_None_Parse [OF valid] obtain d where d: "Parse dob = Some d"
    by auto
  show ?thesis
    using valid up d
    by (simp add: RunCreateUserTest_def RunGetUserTest_def Service_CreateUser_def
        Service_GetUser_def Mock_CreateUser_def Mock_GetUser_def Let_def)
qed

text \<open>The first two steps of the system test: John Doe, born 1990-05-15, is 36.\<close>

theorem create_then_get_witness:
  "ValidateStruct \<lparr>Year = 2026, Month = 10, Day = 30, Nanos = 43200000000000\<rparr>
     \<lparr>req_Name = ''John Doe'', req_DOB = ''1990-05-15''\<rparr> = None
   \<and> \<not> shouldFail NewMockUserRepository
   \<and> (\<exists>resp repo'.
        RunCreateUserTest \<lparr>Year = 2026, Month = 10, Day = 30, Nanos = 43200000000000\<rparr>
          \<lparr>Year = 2026, Month = 10, Day = 30, Nanos = 43200000000001\<rparr>
          NewMockUserRepository ''John Doe'' ''1990-05-15''
        = (\<lparr>tr_Success = True, tr_Message = ''User created successfully'',
            tr_Data = Some resp, tr_Error = None\<rparr>, repo')
        \<and> r_Name resp = ''John Doe''
        \<and> r_Age resp = 36
        \<and> tr_Success (RunGetUserTest \<lparr>Year = 2027, Month = 5, Day = 15, Nanos = 0\<rparr>
             repo' (r_ID resp)))"
proof -
  let ?vnow = "\<lparr>Year = 2026, Month = 10, Day = 30, Nanos = 43200000000000\<rparr>"
  let ?now = "\<lparr>Year = 2026, Month = 10, Day = 30, Nanos = 43200000000001\<rparr>"
  let ?now' = "\<lparr>Year = 2027, Month = 5, Day = 15, Nanos = 0\<rparr>"
  have p: "Parse ''1990-05-15'' = Some \<lparr>Year = 1990, Month = 5, Day = 15, Nanos = 0\<rparr>"
    by (simp add: isDigit_def digitVal_def daysIn_def)
  have n: "\<not> 255 < RuneCountInString ''John Doe''"
    by (rule short_name_ok) simp
  have v: "ValidateStruct ?vnow \<lparr>req_Name = ''John Doe'', req_DOB = ''1990-05-15''\<rparr> = None"
    unfolding ValidateStruct_unfold
    by (simp add: p n Before_def dateBefore_def del: Parse.simps RuneCountInString.simps)
  have u: "\<not> shouldFail NewMockUserRepository"
    by (simp add: NewMockUserRepository_def)
  from create_then_get [OF v u, of ?now ?now'] obtain d resp repo' where
    r: "Parse ''1990-05-15'' = Some d"
      "RunCreateUserTest ?vnow ?now NewMockUserRepository ''John Doe'' ''1990-05-15'' =
          (\<lparr>tr_Success = True, tr_Message = ''User created successfully'',
            tr_Data = Some resp, tr_Error = None\<rparr>, repo')"
      "r_Name resp = ''John Doe''" "r_Age resp = calculateAge ?now d"
      "RunGetUserTest ?now' repo' (r_ID resp) =
          \<lparr>tr_Success = True, tr_Message = ''User retrieved successfully'',
           tr_Data = Some (resp\<lparr>r_Age := calculateAge ?now' d\<rparr>), tr_Error = None\<rparr>"
    by blast
  from r(1) p have "d = \<lparr>Year = 1990, Month = 5, Day = 15, Nanos = 0\<rparr>"
    by simp
  with r(4) have "r_Age resp = 36"
    by (simp add: calculateAge_def)
  with r v u show ?thesis
    by (intro conjI exI [of _ resp] exI [of _ repo']) simp_all
qed

text \<open>
  C8. After a Delete of an identifier that succeeded, a Get of the same identifier and a
  second Delete of it both return the error "user not found", in the repository and
  through the service.
\<close>

theorem delete_then_not_found:
  "Service_DeleteUser repo id' = (None, repo') \<Longrightarrow>
     Mock_GetUser repo' id' = Inl ''user not found''
     \<and> Service_GetUser now repo' id' = Inl ''user not found''
     \<and> Mock_DeleteUser repo' id' = (Some ''user not found'', repo')
     \<and> Service_DeleteUser repo' id' = (Some ''user not found'', repo')"
  by (auto simp: Service_DeleteUser_def Service_GetUser_def Mock_DeleteUser_def
      Mock_GetUser_def split: if_splits)

text \<open>Create a record, delete it, then look for it and delete it again.\<close>

theorem delete_then_not_found_witness:
  "Service_DeleteUser
      (snd (Mock_CreateUser NewMockUserRepository
         \<lparr>cp_Name = ''Jane Smith'', cp_Dob = \<lparr>Year = 1992, Month = 8, Day = 22, Nanos = 0\<rparr>\<rparr>)) 1
    = (None, NewMockUserRepository\<lparr>nextID := 2\<rparr>)
   \<and> Service_GetUser \<lparr>Year = 2026, Month = 10, Day = 30, Nanos = 0\<rparr>
        (NewMockUserRepository\<lparr>nextID := 2\<rparr>) 1 = Inl ''user not found''
   \<and> Service_DeleteUser (NewMockUserRepository\<lparr>nextID := 2\<rparr>) 1
       = (Some ''user not found'', NewMockUserRepository\<lparr>nextID := 2\<rparr>)"
proof -
  have d: "Service_DeleteUser
      (snd (Mock_CreateUser NewMockUserRepository
         \<lparr>cp_Name = ''Jane Smith'', cp_Dob = \<lparr>Year = 1992, Month = 8, Day = 22, Nanos = 0\<rparr>\<rparr>)) 1
    = (None, NewMockUserRepository\<lparr>nextID := 2\<rparr>)"
    by (simp add: Service_DeleteUser_def Mock_DeleteUser_def Mock_CreateUser_def
        NewMockUserRepository_def Let_def)
  from delete_then_not_found [OF d] d show ?thesis
    by blast
qed

section \<open>Identifiers of the in-memory repository\<close>

lemma issued_cases:
  "issued x m = [] \<and> nextID (apply_op x m) = nextID m
   \<or> issued x m = [nextID m] \<and> nextID (apply_op x m) = nextID m + 1"
  by (cases x)
    (auto simp: Mock_CreateUser_def Mock_UpdateUser_def Mock_DeleteUser_def
      Mock_SetShouldFail_def Let_def split: option.splits)

lemma issuedIDs_from:
  "issuedIDs ops m = map (\<lambda>k. nextID m + word_of_nat k) [0..<length (issuedIDs ops m)]"
proof (induction ops arbitrary: m)
  case Nil
  then show ?case by simp
next
  case (Cons x xs)
  let ?m' = "apply_op x m"
  let ?n = "length (issuedIDs xs ?m')"
  have ih: "issuedIDs xs ?m' = map (\<lambda>k. nextID ?m' + word_of_nat k) [0..<?n]"
    by (rule Cons.IH)
  from issued_cases [of x m] show ?case
  proof
    assume a: "issued x m = [] \<and> nextID ?m' = nextID m"
    with ih show ?thesis by simp
  next
    assume a: "issued x m = [nextID m] \<and> nextID ?m' = nextID m + 1"
    have "map (\<lambda>k. nextID m + word_of_nat k) [0..<Suc ?n]
        = nextID m # map (\<lambda>k. nextID m + 1 + word_of_nat k) [0..<?n]"
      by (simp add: upt_conv_Cons map_Suc_upt [symmetric] del: upt_Suc add: ac_simps)
    with a ih show ?thesis by simp
  qed
qed

lemma sint_small: "k < 2 ^ 31 \<Longrightarrow> sint (word_of_nat k :: int32) = int k"
proof -
  assume k: "k < 2 ^ 31"
  have "sint (word_of_int (int k) :: int32) = signed_take_bit (LENGTH(32) - 1) (int k)"
    by (rule sint_sbintrunc')
  also have "\<dots> = int k"
    using k by (simp add: signed_take_bit_int_eq_self)
  finally show ?thesis by simp
qed

lemma issuedIDs_New:
  "issuedIDs ops NewMockUserRepository =
     map (\<lambda>k. word_of_nat (Suc k)) [0..<length (issuedIDs ops NewMockUserRepository)]"
proof -
  have "nextID NewMockUserRepository = 1"
    by (simp add: NewMockUserRepository_def)
  with issuedIDs_from [of ops NewMockUserRepository] show ?thesis
    by simp
qed

lemma ids_increasing:
  assumes "n < 2 ^ 31"
  shows "sorted_wrt (\<lambda>a b. sint a < sint b) (map (\<lambda>k. word_of_nat (Suc k) :: int32) [0..<n])"
proof -
  have "sorted_wrt (\<lambda>x y. sint (word_of_nat (Suc x) :: int32) < sint (word_of_nat (Suc y) :: int32))
          [0..<n]"
  proof (rule sorted_wrt_mono_rel [where P = "(<)"])
    fix x y assume "x \<in> set [0..<n]" "y \<in> set [0..<n]" "x < y"
    with assms have "Suc x < 2 ^ 31" "Suc y < 2 ^ 31" by simp_all
    with \<open>x < y\<close> sint_small [of "Suc x"] sint_small [of "Suc y"]
    show "sint (word_of_nat (Suc x) :: int32) < sint (word_of_nat (Suc y) :: int32)"
      by simp
  next
    show "sorted_wrt (<) [0..<n]" by simp
  qed
  then show ?thesis by (simp add: sorted_wrt_map)
qed

lemma ids_positive:
  assumes "n < 2 ^ 31" and "i \<in> set (map (\<lambda>k. word_of_nat (Suc k) :: int32) [0..<n])"
  shows "0 < sint i"
proof -
  from assms(2) obtain k where k: "k < n" "i = word_of_nat (Suc k)" by auto
  with assms(1) have "Suc k < 2 ^ 31" by simp
  with k sint_small [of "Suc k"] show ?thesis by simp
qed

lemma ids_distinct:
  assumes "n < 2 ^ 31"
  shows "distinct (map (\<lambda>k. word_of_nat (Suc k) :: int32) [0..<n])"
proof -
  have "inj_on (\<lambda>k. word_of_nat (Suc k) :: int32) (set [0..<n])"
  proof (rule inj_onI)
    fix x y assume a: "x \<in> set [0..<n]" "y \<in> set [0..<n]"
      "(word_of_nat (Suc x) :: int32) = word_of_nat (Suc y)"
    with assms have b: "Suc x < 2 ^ 31" "Suc y < 2 ^ 31" by simp_all
    from a(3) have "sint (word_of_nat (Suc x) :: int32) = sint (word_of_nat (Suc y) :: int32)"
      by simp
    with b sint_small [of "Suc x"] sint_small [of "Suc y"] show "x = y" by simp
  qed
  then show ?thesis by (simp add: distinct_map)
qed

lemma keyed_step: "keyed m \<Longrightarrow> keyed (apply_op x m)"
  by (cases x)
    (auto simp: keyed_def Mock_CreateUser_def Mock_UpdateUser_def Mock_DeleteUser_def
      Mock_SetShouldFail_def Let_def split: option.splits if_splits)

lemma key_origin_step:
  "users (apply_op x m) i = Some u \<Longrightarrow> i \<in> set (issued x m) \<or> i \<in> dom (users m)"
  by (cases x)
    (auto simp: Mock_CreateUser_def Mock_UpdateUser_def Mock_DeleteUser_def
      Mock_SetShouldFail_def Let_def split: option.splits if_splits)

lemma keyed_run: "keyed m \<Longrightarrow> keyed (run ops m)"
  by (induction ops arbitrary: m) (simp_all add: keyed_step)

lemma key_origin_run:
  "users (run ops m) i = Some u \<Longrightarrow> i \<in> set (issuedIDs ops m) \<or> i \<in> dom (users m)"
proof (induction ops arbitrary: m)
  case Nil
  then show ?case by auto
next
  case (Cons x xs)
  from Cons.prems have "users (run xs (apply_op x m)) i = Some u" by simp
  from Cons.IH [OF this]
  have "i \<in> set (issuedIDs xs (apply_op x m)) \<or> i \<in> dom (users (apply_op x m))" .
  then show ?case
  proof
    assume "i \<in> set (issuedIDs xs (apply_op x m))"
    then show ?thesis by simp
  next
    assume "i \<in> dom (users (apply_op x m))"
    then obtain v where "users (apply_op x m) i = Some v" by auto
    from key_origin_step [OF this] show ?thesis by auto
  qed
qed

lemma update_keeps_ids:
  "Mock_UpdateUser m arg = (Inr user, m') \<Longrightarrow>
     nextID m' = nextID m
     \<and> (\<forall>i. map_option u_ID (users m' i) = map_option u_ID (users m i))
     \<and> map_option u_ID (users m (up_ID arg)) = Some (u_ID user)"
  by (auto simp: Mock_UpdateUser_def Let_def split: if_splits option.splits)

lemma churn_empty:
  "users m = Map.empty \<Longrightarrow> \<not> shouldFail m \<Longrightarrow>
     churn n arg m = m\<lparr>nextID := nextID m + word_of_nat n\<rparr>"
proof (induction n arbitrary: m)
  case 0
  then show ?case by simp
next
  case (Suc n)
  let ?m' = "snd (Mock_DeleteUser (snd (Mock_CreateUser m arg)) (nextID m))"
  from Suc.prems have m': "?m' = m\<lparr>nextID := nextID m + 1\<rparr>"
    by (simp add: Mock_DeleteUser_def Mock_CreateUser_def Let_def)
  with Suc.prems have "users ?m' = Map.empty" "\<not> shouldFail ?m'" by simp_all
  from Suc.IH [OF this] m' show ?case by (simp add: ac_simps)
qed

text \<open>
  C9, as the code has it. In every history of calls on a new in-memory repository the
  identifiers of the created records are 1, 2, 3, ... in the order of creation, as
  \<^verbatim>\<open>int32\<close> values. As long as fewer than \<open>2 ^ 31\<close> records have been created they
  are distinct, strictly increasing and positive, whatever was deleted in between;
  every stored record has the identifier it is stored under, and that identifier was
  given by a Create of the history. An Update that succeeds changes neither the
  counter nor the identifier of any stored record, and returns the identifier of the
  record it was aimed at.
\<close>

theorem mock_identifiers:
  "issuedIDs ops NewMockUserRepository =
     map (\<lambda>k. word_of_nat (Suc k)) [0..<length (issuedIDs ops NewMockUserRepository)]
   \<and> (length (issuedIDs ops NewMockUserRepository) < 2 ^ 31 \<longrightarrow>
        distinct (issuedIDs ops NewMockUserRepository)
        \<and> sorted_wrt (\<lambda>a b. sint a < sint b) (issuedIDs ops NewMockUserRepository)
        \<and> (\<forall>i \<in> set (issuedIDs ops NewMockUserRepository). 0 < sint i))
   \<and> (\<forall>i u. users (run ops NewMockUserRepository) i = Some u \<longrightarrow>
        u_ID u = i \<and> i \<in> set (issuedIDs ops NewMockUserRepository))
   \<and> (Mock_UpdateUser m arg = (Inr user, m') \<longrightarrow>
        nextID m' = nextID m
        \<and> (\<forall>i. map_option u_ID (users m' i) = map_option u_ID (users m i))
        \<and> map_option u_ID (users m (up_ID arg)) = Some (u_ID user))"
proof (intro conjI impI allI ballI)
  let ?ids = "issuedIDs ops NewMockUserRepository"
  show e: "?ids = map (\<lambda>k. word_of_nat (Suc k)) [0..<length ?ids]"
    by (rule issuedIDs_New)
  {
    assume b: "length ?ids < 2 ^ 31"
    from ids_distinct [OF b] e show "distinct ?ids" by simp
    from ids_increasing [OF b] e show "sorted_wrt (\<lambda>a b. sint a < sint b) ?ids" by simp
    fix i assume "i \<in> set ?ids"
    with e have "i \<in> set (map (\<lambda>k. word_of_nat (Suc k) :: int32) [0..<length ?ids])" by simp
    from ids_positive [OF b this] show "0 < sint i" .
  }
  have k: "keyed NewMockUserRepository"
    by (simp add: keyed_def NewMockUserRepository_def)
  {
    fix i u assume s: "users (run ops NewMockUserRepository) i = Some u"
    from keyed_run [OF k, of ops] s show "u_ID u = i" by (simp add: keyed_def)
    from key_origin_run [OF s] show "i \<in> set ?ids"
      by (simp add: NewMockUserRepository_def)
  }
  {
    assume u: "Mock_UpdateUser m arg = (Inr user, m')"
    from update_keeps_ids [OF u] show "nextID m' = nextID m" by blast
    from update_keeps_ids [OF u] show "map_option u_ID (users m (up_ID arg)) = Some (u_ID user)"
      by blast
    fix i
    from update_keeps_ids [OF u] show "map_option u_ID (users m' i) = map_option u_ID (users m i)"
      by blast
  }
qed

text \<open>The creates, the update and the delete of the system test: identifiers 1, 2, 3.\<close>

theorem mock_identifiers_witness:
  "issuedIDs
      [OpCreate \<lparr>cp_Name = ''John Doe'', cp_Dob = \<lparr>Year = 1990, Month = 5, Day = 15, Nanos = 0\<rparr>\<rparr>,
       OpCreate \<lparr>cp_Name = ''Jane Smith'', cp_Dob = \<lparr>Year = 1992, Month = 8, Day = 22, Nanos = 0\<rparr>\<rparr>,
       OpUpdate \<lparr>up_ID = 1, up_Name = ''John Doe Updated'',
                 up_Dob = \<lparr>Year = 1990, Month = 5, Day = 20, Nanos = 0\<rparr>\<rparr>,
       OpDelete 2,
       OpCreate \<lparr>cp_Name = ''Bob Johnson'', cp_Dob = \<lparr>Year = 1985, Month = 3, Day = 10, Nanos = 0\<rparr>\<rparr>]
      NewMockUserRepository = [1, 2, 3]
   \<and> length (issuedIDs
      [OpCreate \<lparr>cp_Name = ''John Doe'', cp_Dob = \<lparr>Year = 1990, Month = 5, Day = 15, Nanos = 0\<rparr>\<rparr>,
       OpCreate \<lparr>cp_Name = ''Jane Smith'', cp_Dob = \<lparr>Year = 1992, Month = 8, Day = 22, Nanos = 0\<rparr>\<rparr>,
       OpUpdate \<lparr>up_ID = 1, up_Name = ''John Doe Updated'',
                 up_Dob = \<lparr>Year = 1990, Month = 5, Day = 20, Nanos = 0\<rparr>\<rparr>,
       OpDelete 2,
       OpCreate \<lparr>cp_Name = ''Bob Johnson'', cp_Dob = \<lparr>Year = 1985, Month = 3, Day = 10, Nanos = 0\<rparr>\<rparr>]
      NewMockUserRepository) < 2 ^ 31
   \<and> distinct (issuedIDs
      [OpCreate \<lparr>cp_Name = ''John Doe'', cp_Dob = \<lparr>Year = 1990, Month = 5, Day = 15, Nanos = 0\<rparr>\<rparr>,
       OpCreate \<lparr>cp_Name = ''Jane Smith'', cp_Dob = \<lparr>Year = 1992, Month = 8, Day = 22, Nanos = 0\<rparr>\<rparr>,
       OpUpdate \<lparr>up_ID = 1, up_Name = ''John Doe Updated'',
                 up_Dob = \<lparr>Year = 1990, Month = 5, Day = 20, Nanos = 0\<rparr>\<rparr>,
       OpDelete 2,
       OpCreate \<lparr>cp_Name = ''Bob Johnson'', cp_Dob = \<lparr>Year = 1985, Month = 3, Day = 10, Nanos = 0\<rparr>\<rparr>]
      NewMockUserRepository)
   \<and> Mock_UpdateUser
        \<lparr>users = [1 \<mapsto> \<lparr>u_ID = 1, u_Name = ''John Doe'',
                          u_Dob = \<lparr>Year = 1990, Month = 5, Day = 15, Nanos = 0\<rparr>\<rparr>],
         nextID = 2, shouldFail = False\<rparr>
        \<lparr>up_ID = 1, up_Name = ''John Doe Updated'',
         up_Dob = \<lparr>Year = 1990, Month = 5, Day = 20, Nanos = 0\<rparr>\<rparr>
      = (Inr \<lparr>u_ID = 1, u_Name = ''John Doe Updated'',
               u_Dob = \<lparr>Year = 1990, Month = 5, Day = 20, Nanos = 0\<rparr>\<rparr>,
         \<lparr>users = [1 \<mapsto> \<lparr>u_ID = 1, u_Name = ''John Doe Updated'',
                          u_Dob = \<lparr>Year = 1990, Month = 5, Day = 20, Nanos = 0\<rparr>\<rparr>],
          nextID = 2, shouldFail = False\<rparr>)
   \<and> map_option u_ID
        (users \<lparr>users = [1 \<mapsto> \<lparr>u_ID = 1, u_Name = ''John Doe'',
                          u_Dob = \<lparr>Year = 1990, Month = 5, Day = 15, Nanos = 0\<rparr>\<rparr>],
                nextID = 2, shouldFail = False\<rparr>
           (up_ID \<lparr>up_ID = 1, up_Name = ''John Doe Updated'',
                   up_Dob = \<lparr>Year = 1990, Month = 5, Day = 20, Nanos = 0\<rparr>\<rparr>))
      = Some (u_ID \<lparr>u_ID = 1, u_Name = ''John Doe Updated'',
                    u_Dob = \<lparr>Year = 1990, Month = 5, Day = 20, Nanos = 0\<rparr>\<rparr>)
   \<and> users (run
      [OpCreate \<lparr>cp_Name = ''John Doe'', cp_Dob = \<lparr>Year = 1990, Month = 5, Day = 15, Nanos = 0\<rparr>\<rparr>,
       OpCreate \<lparr>cp_Name = ''Jane Smith'', cp_Dob = \<lparr>Year = 1992, Month = 8, Day = 22, Nanos = 0\<rparr>\<rparr>,
       OpUpdate \<lparr>up_ID = 1, up_Name = ''John Doe Updated'',
                 up_Dob = \<lparr>Year = 1990, Month = 5, Day = 20, Nanos = 0\<rparr>\<rparr>,
       OpDelete 2,
       OpCreate \<lparr>cp_Name = ''Bob Johnson'', cp_Dob = \<lparr>Year = 1985, Month = 3, Day = 10, Nanos = 0\<rparr>\<rparr>]
      NewMockUserRepository) 3
      = Some \<lparr>u_ID = 3, u_Name = ''Bob Johnson'',
               u_Dob = \<lparr>Year = 1985, Month = 3, Day = 10, Nanos = 0\<rparr>\<rparr>
   \<and> 3 \<in> set (issuedIDs
      [OpCreate \<lparr>cp_Name = ''John Doe'', cp_Dob = \<lparr>Year = 1990, Month = 5, Day = 15, Nanos = 0\<rparr>\<rparr>,
       OpCreate \<lparr>cp_Name = ''Jane Smith'', cp_Dob = \<lparr>Year = 1992, Month = 8, Day = 22, Nanos = 0\<rparr>\<rparr>,
       OpUpdate \<lparr>up_ID = 1, up_Name = ''John Doe Updated'',
                 up_Dob = \<lparr>Year = 1990, Month = 5, Day = 20, Nanos = 0\<rparr>\<rparr>,
       OpDelete 2,
       OpCreate \<lparr>cp_Name = ''Bob Johnson'', cp_Dob = \<lparr>Year = 1985, Month = 3, Day = 10, Nanos = 0\<rparr>\<rparr>]
      NewMockUserRepository)
   \<and> 0 < sint (3 :: int32)"
proof -
  let ?ops = "[OpCreate \<lparr>cp_Name = ''John Doe'', cp_Dob = \<lparr>Year = 1990, Month = 5, Day = 15, Nanos = 0\<rparr>\<rparr>,
       OpCreate \<lparr>cp_Name = ''Jane Smith'', cp_Dob = \<lparr>Year = 1992, Month = 8, Day = 22, Nanos = 0\<rparr>\<rparr>,
       OpUpdate \<lparr>up_ID = 1, up_Name = ''John Doe Updated'',
                 up_Dob = \<lparr>Year = 1990, Month = 5, Day = 20, Nanos = 0\<rparr>\<rparr>,
       OpDelete 2,
       OpCreate \<lparr>cp_Name = ''Bob Johnson'', cp_Dob = \<lparr>Year = 1985, Month = 3, Day = 10, Nanos = 0\<rparr>\<rparr>]"
  let ?m = "\<lparr>users = [1 \<mapsto> \<lparr>u_ID = 1, u_Name = ''John Doe'',
                          u_Dob = \<lparr>Year = 1990, Month = 5, Day = 15, Nanos = 0\<rparr>\<rparr>],
         nextID = 2, shouldFail = False\<rparr>"
  let ?arg = "\<lparr>up_ID = 1, up_Name = ''John Doe Updated'',
         up_Dob = \<lparr>Year = 1990, Month = 5, Day = 20, Nanos = 0\<rparr>\<rparr>"
  let ?user = "\<lparr>u_ID = 1, u_Name = ''John Doe Updated'',
               u_Dob = \<lparr>Year = 1990, Month = 5, Day = 20, Nanos = 0\<rparr>\<rparr>"
  let ?m' = "\<lparr>users = [1 \<mapsto> ?user], nextID = 2, shouldFail = False\<rparr>"
  have e: "issuedIDs ?ops NewMockUserRepository = [1, 2, 3]"
    by (simp add: NewMockUserRepository_def Mock_CreateUser_def Mock_UpdateUser_def
        Mock_DeleteUser_def Let_def)
  then have l: "length (issuedIDs ?ops NewMockUserRepository) < 2 ^ 31"
    by simp
  have u: "Mock_UpdateUser ?m ?arg = (Inr ?user, ?m')"
    by (simp add: Mock_UpdateUser_def Let_def)
  have s: "users (run ?ops NewMockUserRepository) 3
      = Some \<lparr>u_ID = 3, u_Name = ''Bob Johnson'',
               u_Dob = \<lparr>Year = 1985, Month = 3, Day = 10, Nanos = 0\<rparr>\<rparr>"
    by (simp add: NewMockUserRepository_def Mock_CreateUser_def Mock_UpdateUser_def
        Mock_DeleteUser_def Let_def)
  from mock_identifiers [of ?ops ?m ?arg ?user ?m'] l u s
  have "distinct (issuedIDs ?ops NewMockUserRepository)"
    and "map_option u_ID (users ?m (up_ID ?arg)) = Some (u_ID ?user)"
    and i: "3 \<in> set (issuedIDs ?ops NewMockUserRepository)"
    by blast+
  moreover from mock_identifiers [of ?ops ?m ?arg ?user ?m'] l i
  have "0 < sint (3 :: int32)"
    by blast
  ultimately show ?thesis
    using e l u s by blast
qed

text \<open>
  C9 as stated fails where the counter leaves the range of \<^verbatim>\<open>int32\<close>: after 2147483647
  rounds of creating a record and deleting it, the counter has wrapped around, and the
  next record created has the identifier -2147483648.
\<close>

theorem identifier_wraps_counterexample:
  "map_sum id (\<lambda>user. sint (u_ID user))
     (fst (Mock_CreateUser
        (churn 2147483647 \<lparr>cp_Name = ''John Doe'',
            cp_Dob = \<lparr>Year = 1990, Month = 5, Day = 15, Nanos = 0\<rparr>\<rparr> NewMockUserRepository)
        \<lparr>cp_Name = ''Jane Smith'', cp_Dob = \<lparr>Year = 1992, Month = 8, Day = 22, Nanos = 0\<rparr>\<rparr>))
   = Inr (- 2147483648)"
proof -
  have "users NewMockUserRepository = Map.empty" "\<not> shouldFail NewMockUserRepository"
    by (simp_all add: NewMockUserRepository_def)
  from churn_empty [OF this] show ?thesis
    by (simp add: Mock_CreateUser_def NewMockUserRepository_def Let_def)
qed

end
